theory Spec2Isabelle
  imports Complex_Main
begin

section \<open>MaskFormer feature extractor: shallow embedding\<close>

text \<open>
  The theory embeds \<^verbatim>\<open>feature_extraction_maskformer.py\<close>. Python integers are
  \<^typ>\<open>int\<close>, counts and list positions are \<^typ>\<open>nat\<close>, floating-point
  values are the \<^typ>\<open>real\<close> numbers they denote. Where the source computes on
  tensors, the result is rounded to the tensor's element type (\<open>float32\<close> below); the
  float arithmetic of the resizer on Python's double-precision floats is exact for the
  image sizes it is given and is written without rounding. Exceptions are values of \<open>error\<close> on the left of a sum.
\<close>

datatype error =
    ValueError string
  | TypeError string
  | IndexError
  | KeyError string
  | ZeroDivisionError
  | AttributeError string
  | ImportError string

subsection \<open>Resizer: \<^verbatim>\<open>get_size_with_aspect_ratio\<close> and \<^verbatim>\<open>get_size\<close>\<close>

text \<open>Python 3 \<^verbatim>\<open>round(x)\<close> on a float: round half to even, an integer result.\<close>

definition py_round :: "real \<Rightarrow> int" where
  "py_round x =
     (let f = \<lfloor>x\<rfloor>; d = x - of_int f
      in if d < 1 / 2 then f
         else if 1 / 2 < d then f + 1
         else if even f then f else f + 1)"

text \<open>Python \<^verbatim>\<open>int(x)\<close> on a float: truncation towards zero.\<close>

definition py_int :: "real \<Rightarrow> int" where
  "py_int x = (if 0 \<le> x then \<lfloor>x\<rfloor> else \<lceil>x\<rceil>)"

text \<open>Python true division \<^verbatim>\<open>a / b\<close>: raises on a zero divisor.\<close>

definition py_truediv :: "real \<Rightarrow> real \<Rightarrow> error + real" where
  "py_truediv a b = (if b = 0 then Inl ZeroDivisionError else Inr (a / b))"

text \<open>
  Rounding to single precision, the element type of the model's output tensors and of
  \<^verbatim>\<open>torch\<close>'s true division of integer tensors: round to nearest, ties to even, on
  a 24-bit significand. \<open>binade_up\<close> and \<open>binade_down\<close> search the power of two
  \<open>p\<close> with \<open>p \<le> a < 2 * p\<close>, from 1 up to \<open>2 ^ 127\<close> and down to \<open>2 ^ -126\<close> (below
  which the spacing of the subnormal numbers stays \<open>2 ^ -149\<close>). Overflow to infinity
  (from \<open>2 ^ 128\<close> on) is not modelled.
\<close>

fun binade_down :: "nat \<Rightarrow> real \<Rightarrow> real \<Rightarrow> real" where
  "binade_down 0 a p = p"
| "binade_down (Suc n) a p = (if p \<le> a then p else binade_down n a (p / 2))"

fun binade_up :: "nat \<Rightarrow> real \<Rightarrow> real \<Rightarrow> real" where
  "binade_up 0 a p = p"
| "binade_up (Suc n) a p = (if a < 2 * p then p else binade_up n a (2 * p))"

definition float32 :: "real \<Rightarrow> real" where
  "float32 x =
     (if x = 0 then 0
      else
        (let a = \<bar>x\<bar>;
             p = (if 1 \<le> a then binade_up 127 a 1 else binade_down 126 a 1);
             ulp = p / 2 ^ 23
         in sgn x * (real_of_int (py_round (a / ulp)) * ulp)))"

text \<open>
  Lines 102--106: the size cap. \<open>max_size\<close> is \<open>None\<close> or an integer; the result is the
  short-edge target used afterwards.
\<close>

definition capped_size :: "int \<Rightarrow> int \<Rightarrow> int \<Rightarrow> int option \<Rightarrow> error + int" where
  "capped_size width height sz max_size =
     (case max_size of
        None \<Rightarrow> Inr sz
      | Some ms \<Rightarrow>
          (let min_original_size = real_of_int (min width height);
               max_original_size = real_of_int (max width height)
           in case py_truediv max_original_size min_original_size of
                Inl e \<Rightarrow> Inl e
              | Inr ratio \<Rightarrow>
                  if real_of_int ms < ratio * real_of_int sz
                  then (case py_truediv (real_of_int ms * min_original_size) max_original_size of
                          Inl e \<Rightarrow> Inl e
                        | Inr q \<Rightarrow> Inr (py_round q))
                  else Inr sz))"

text \<open>Lines 100--118. The argument is \<open>(width, height)\<close>, the result \<open>(oh, ow)\<close>.\<close>

definition get_size_with_aspect_ratio :: "int \<times> int \<Rightarrow> int \<Rightarrow> int option \<Rightarrow> error + int \<times> int" where
  "get_size_with_aspect_ratio image_size sz max_size =
     (case image_size of (width, height) \<Rightarrow>
        (case capped_size width height sz max_size of
           Inl e \<Rightarrow> Inl e
         | Inr sz' \<Rightarrow>
             if (width \<le> height \<and> width = sz') \<or> (height \<le> width \<and> height = sz')
             then Inr (height, width)
             else if width < height
             then (case py_truediv (real_of_int (sz' * height)) (real_of_int width) of
                     Inl e \<Rightarrow> Inl e
                   | Inr q \<Rightarrow> Inr (py_int q, sz'))
             else (case py_truediv (real_of_int (sz' * width)) (real_of_int height) of
                     Inl e \<Rightarrow> Inl e
                   | Inr q \<Rightarrow> Inr (sz', py_int q))))"

text \<open>
  Lines 120--126: \<open>size\<close> is a scalar or an explicit \<open>(width, height)\<close> pair; the result is
  \<open>(width, height)\<close>, the reversed tuple of \<open>get_size_with_aspect_ratio\<close>.
\<close>

datatype size_arg = Scalar int | Pair int int

definition get_size :: "int \<times> int \<Rightarrow> size_arg \<Rightarrow> int option \<Rightarrow> error + int \<times> int" where
  "get_size image_size sz max_size =
     (case sz of
        Pair w h \<Rightarrow> Inr (w, h)
      | Scalar s \<Rightarrow>
          (case get_size_with_aspect_ratio image_size s max_size of
             Inl e \<Rightarrow> Inl e
           | Inr (oh, ow) \<Rightarrow> Inr (ow, oh)))"

text \<open>
  The spec's reading of ``the cap applies'': scaling the shorter edge to \<open>s\<close> would make
  the longer edge exceed \<open>max_size\<close>.
\<close>

definition cap_applies :: "int \<Rightarrow> int \<Rightarrow> int \<Rightarrow> int option \<Rightarrow> bool" where
  "cap_applies width height sz max_size =
     (case max_size of
        None \<Rightarrow> False
      | Some ms \<Rightarrow>
          real_of_int ms < real_of_int (max width height) / real_of_int (min width height) * real_of_int sz)"

subsection \<open>Query filtering: \<^verbatim>\<open>remove_low_and_no_objects\<close>\<close>

text \<open>
  A tensor is a list along its leading dimension. \<open>select to_keep xs\<close> is the boolean-mask
  indexing \<^verbatim>\<open>xs[to_keep]\<close>: the entries at the positions where the mask holds,
  in order, as a fresh list.
\<close>

type_synonym 'a plane = "'a list list"

definition select :: "bool list \<Rightarrow> 'a list \<Rightarrow> 'a list" where
  "select to_keep xs = map snd (filter fst (zip to_keep xs))"

text \<open>
  Lines 406--430. The chained comparison of line 425 is a conjunction of two equalities.
  In line 428 \<^verbatim>\<open>scores > object_mask_threshold\<close> compares a tensor with a Python
  float: \<^verbatim>\<open>torch\<close> converts the float to the element type of \<open>scores\<close> and compares
  there. \<open>to_dtype\<close> is that conversion (\<open>float32\<close> for single-precision scores).
\<close>

definition remove_low_and_no_objects ::
  "(real \<Rightarrow> real) \<Rightarrow> 'm list \<Rightarrow> real list \<Rightarrow> int list \<Rightarrow> real \<Rightarrow> int
     \<Rightarrow> error + ('m list \<times> real list \<times> int list)" where
  "remove_low_and_no_objects to_dtype masks scores labels object_mask_threshold num_labels =
     (if \<not> (length masks = length scores \<and> length scores = length labels)
      then Inl (ValueError ''mask, scores and labels must have the same shape!'')
      else
        (let to_keep = map2 (\<lambda>l s. l \<noteq> num_labels \<and> to_dtype object_mask_threshold < s) labels scores
         in Inr (select to_keep masks, select to_keep scores, select to_keep labels)))"

text \<open>
  The spec's words for the same filter: keep, in order, the queries whose label is not the
  null class and whose score is strictly above the threshold (a real number here).
\<close>

definition surviving_queries ::
  "'m list \<Rightarrow> real list \<Rightarrow> int list \<Rightarrow> real \<Rightarrow> int \<Rightarrow> ('m \<times> real \<times> int) list" where
  "surviving_queries masks scores labels object_mask_threshold num_labels =
     filter (\<lambda>(m, s, l). l \<noteq> num_labels \<and> object_mask_threshold < s)
       (zip masks (zip scores labels))"

subsection \<open>Panoptic merger: \<^verbatim>\<open>post_process_panoptic_segmentation\<close>\<close>

text \<open>
  \<open>class_spec\<close> is an entry of the caller's table
  \<^verbatim>\<open>self.model.config.dataset_metadata["classes"]\<close>, which is not part of the file and
  enters the model as the parameter \<open>classes\<close>. A \<open>segment\<close> is a
  \<^verbatim>\<open>PanopticSegmentationSegment\<close> (keys \<^verbatim>\<open>id\<close>, \<^verbatim>\<open>category_id\<close>,
  \<^verbatim>\<open>is_thing\<close>, \<^verbatim>\<open>label\<close>).
\<close>

record class_spec =
  is_thing :: bool
  label :: string

record segment =
  segment_id :: int
  category_id :: int
  segment_is_thing :: bool
  segment_label :: string

text \<open>
  The state of the loop over \<open>k\<close> (lines 484--523) for one image: the counter, the two
  objects created at lines 472--473 and mutated in place, the stuff memory, and the
  \<open>results\<close> list. A dict appended to \<open>results\<close> holds references to the image's
  \<open>segmentation\<close> tensor and \<open>segments\<close> list, not copies: \<open>results\<close> is a list of
  references (the image's index in the batch), read through the store when the function
  returns.
\<close>

record merge_state =
  current_segment_id :: int
  segmentation :: "int plane"
  segments :: "segment list"
  stuff_memory_list :: "int \<rightharpoonup> int"
  results :: "nat list"

text \<open>
  Line 478: \<^verbatim>\<open>mask_probs *= pred_scores.view(-1, 1, 1)\<close>, in place; each product
  is rounded to single precision.
\<close>

definition scale_masks :: "real plane list \<Rightarrow> real list \<Rightarrow> real plane list" where
  "scale_masks mask_probs pred_scores =
     map2 (\<lambda>m s. map (map (\<lambda>p. float32 (p * s))) m) mask_probs pred_scores"

text \<open>
  Line 480: \<^verbatim>\<open>mask_probs.argmax(0)\<close>, the index of the first maximal value over the
  queries at every pixel, as a scan over the queries that keeps the best value and its index.
  (It is only called on a tensor with at least one query.)
\<close>

fun argmax_scan :: "(real \<times> nat) plane \<Rightarrow> nat \<Rightarrow> real plane list \<Rightarrow> (real \<times> nat) plane" where
  "argmax_scan best k [] = best"
| "argmax_scan best k (m # ms) =
     argmax_scan (map2 (map2 (\<lambda>(bv, bi) v. if bv < v then (v, k) else (bv, bi))) best m) (Suc k) ms"

fun argmax0 :: "real plane list \<Rightarrow> nat plane" where
  "argmax0 [] = []"
| "argmax0 (m0 # ms) = map (map snd) (argmax_scan (map (map (\<lambda>v. (v, 0))) m0) 1 ms)"

text \<open>Sum of a boolean plane (lines 492, 495), and the masked write of line 511.\<close>

definition area :: "bool plane \<Rightarrow> nat" where
  "area m = sum_list (map (\<lambda>row. length (filter (\<lambda>b. b) row)) m)"

text \<open>
  Line 495: \<^verbatim>\<open>(m >= 0.5).sum()\<close> for one query's plane \<open>m\<close> (0.5 is a
  single-precision number: its conversion changes nothing).
\<close>

definition thresholded_area :: "real plane \<Rightarrow> nat" where
  "thresholded_area m = area (map (map (\<lambda>p. 1 / 2 \<le> p)) m)"

definition masked_fill :: "bool plane \<Rightarrow> int \<Rightarrow> int plane \<Rightarrow> int plane" where
  "masked_fill mask_k v seg = map2 (map2 (\<lambda>b old. if b then v else old)) mask_k seg"

text \<open>
  Lines 485--523, one iteration. \<open>mask_probs\<close> is the tensor after line 478, that is, the
  scaled one. \<open>b\<close> is the reference appended to \<open>results\<close>. The quotient of the two
  areas (line 501) is a single-precision tensor (the areas are far below \<open>2 ^ 24\<close> and
  convert exactly); \<^verbatim>\<open>.item()\<close> reads it back as the Python float of the same value,
  which line 502 compares with the threshold.
\<close>

definition merge_step ::
  "(int \<rightharpoonup> class_spec) \<Rightarrow> real \<Rightarrow> real plane list \<Rightarrow> nat plane \<Rightarrow> int list \<Rightarrow> nat \<Rightarrow> nat
     \<Rightarrow> merge_state \<Rightarrow> error + merge_state" where
  "merge_step classes overlap_mask_area_threshold mask_probs mask_labels pred_labels b k st =
     (let pred_class = pred_labels ! k
      in case classes pred_class of
           None \<Rightarrow> Inl (KeyError ''classes'')
         | Some spec \<Rightarrow>
             (let is_stuff = \<not> is_thing spec;
                  mask_k = map (map (\<lambda>l. l = k)) mask_labels;
                  mask_k_area = area mask_k;
                  original_area = thresholded_area (mask_probs ! k);
                  mask_does_exist = (0 < mask_k_area \<and> 0 < original_area);
                  st1 =
                    (if mask_does_exist
                     then
                       (let area_ratio = float32 (real mask_k_area / real original_area);
                            mask_k_is_overlapping_enough = (overlap_mask_area_threshold < area_ratio)
                        in if mask_k_is_overlapping_enough
                           then
                             (let cur = (case stuff_memory_list st pred_class of
                                           Some i \<Rightarrow> i
                                         | None \<Rightarrow> current_segment_id st + 1)
                              in st\<lparr>current_segment_id := cur,
                                    segmentation := masked_fill mask_k cur (segmentation st),
                                    segments := segments st @
                                      [\<lparr>segment_id = cur, category_id = pred_class,
                                        segment_is_thing = \<not> is_stuff, segment_label = label spec\<rparr>],
                                    stuff_memory_list :=
                                      (if is_stuff then (stuff_memory_list st)(pred_class \<mapsto> cur)
                                       else stuff_memory_list st)\<rparr>)
                           else st)
                     else st)
              in Inr (st1\<lparr>results := results st1 @ [b]\<rparr>)))"

fun merge_loop ::
  "(int \<rightharpoonup> class_spec) \<Rightarrow> real \<Rightarrow> real plane list \<Rightarrow> nat plane \<Rightarrow> int list \<Rightarrow> nat \<Rightarrow> nat list
     \<Rightarrow> merge_state \<Rightarrow> error + merge_state" where
  "merge_loop classes oat mask_probs mask_labels pred_labels b [] st = Inr st"
| "merge_loop classes oat mask_probs mask_labels pred_labels b (k # ks) st =
     (case merge_step classes oat mask_probs mask_labels pred_labels b k st of
        Inl e \<Rightarrow> Inl e
      | Inr st' \<Rightarrow> merge_loop classes oat mask_probs mask_labels pred_labels b ks st')"

text \<open>
  Lines 465--523 for the image with index \<open>b\<close>: the filter (on single-precision scores),
  the two fresh objects, and, when a query survived, the scaling, the per-pixel argmax and
  the loop. The result is the
  \<open>results\<close> list after this image and the final contents of the image's two objects.
\<close>

definition process_image ::
  "(int \<rightharpoonup> class_spec) \<Rightarrow> real \<Rightarrow> real \<Rightarrow> nat \<Rightarrow> nat \<Rightarrow> int \<Rightarrow> nat
     \<Rightarrow> real plane list \<times> real list \<times> int list \<Rightarrow> nat list
     \<Rightarrow> error + (nat list \<times> (int plane \<times> segment list))" where
  "process_image classes object_mask_threshold overlap_mask_area_threshold height width num_labels b
       img results0 =
     (case img of (mask_probs, pred_scores, pred_labels) \<Rightarrow>
        (case remove_low_and_no_objects float32 mask_probs pred_scores pred_labels
                object_mask_threshold num_labels of
           Inl e \<Rightarrow> Inl e
         | Inr (mask_probs1, pred_scores1, pred_labels1) \<Rightarrow>
             (let we_detect_something = (0 < length mask_probs1);
                  st0 = \<lparr>current_segment_id = 0,
                         segmentation = replicate height (replicate width 0),
                         segments = [],
                         stuff_memory_list = Map.empty,
                         results = results0\<rparr>
              in if we_detect_something
                 then
                   (let mask_probs2 = scale_masks mask_probs1 pred_scores1;
                        mask_labels = argmax0 mask_probs2
                    in case merge_loop classes overlap_mask_area_threshold mask_probs2 mask_labels
                              pred_labels1 b [0..<length pred_labels1] st0 of
                         Inl e \<Rightarrow> Inl e
                       | Inr st \<Rightarrow> Inr (results st, (segmentation st, segments st)))
                 else Inr (results st0, (segmentation st0, segments st0)))))"

text \<open>The loop of line 465 over the batch, with the store of the images' objects.\<close>

fun process_batch ::
  "(int \<rightharpoonup> class_spec) \<Rightarrow> real \<Rightarrow> real \<Rightarrow> nat \<Rightarrow> nat \<Rightarrow> int \<Rightarrow> nat
     \<Rightarrow> (real plane list \<times> real list \<times> int list) list \<Rightarrow> nat list \<Rightarrow> (int plane \<times> segment list) list
     \<Rightarrow> error + (nat list \<times> (int plane \<times> segment list) list)" where
  "process_batch classes omt oat height width num_labels b [] results0 store = Inr (results0, store)"
| "process_batch classes omt oat height width num_labels b (img # rest) results0 store =
     (case process_image classes omt oat height width num_labels b img results0 of
        Inl e \<Rightarrow> Inl e
      | Inr (results1, objects) \<Rightarrow>
          process_batch classes omt oat height width num_labels (Suc b) rest results1 (store @ [objects]))"

text \<open>
  Lines 449--525. The softmax and the sigmoid of lines 458 and 460 are floating-point
  kernels outside the model: the function is embedded from their results on, that is, from
  \<open>pred_scores\<close>, \<open>pred_labels\<close> and \<open>mask_probs\<close> (one entry per image, zipped as in
  line 465), with \<open>height\<close>, \<open>width\<close> and \<open>num_labels\<close> read from the tensors' shapes.
  The value is the list of \<^verbatim>\<open>{"segmentation", "segments"}\<close> dicts returned.
\<close>

definition post_process_panoptic_segmentation ::
  "(int \<rightharpoonup> class_spec) \<Rightarrow> nat \<Rightarrow> nat \<Rightarrow> int
     \<Rightarrow> (real plane list \<times> real list \<times> int list) list \<Rightarrow> real \<Rightarrow> real
     \<Rightarrow> error + (int plane \<times> segment list) list" where
  "post_process_panoptic_segmentation classes height width num_labels batch
       object_mask_threshold overlap_mask_area_threshold =
     (case process_batch classes object_mask_threshold overlap_mask_area_threshold height width
             num_labels 0 batch [] [] of
        Inl e \<Rightarrow> Inl e
      | Inr (results1, store) \<Rightarrow> Inr (map (\<lambda>r. store ! r) results1))"

subsection \<open>Batch packer: \<^verbatim>\<open>_max_by_axis\<close> and \<^verbatim>\<open>encode_inputs\<close>\<close>

text \<open>
  A three-dimensional array is a rectangular nested list, leading dimension first, with
  non-zero leading dimensions (the shape of an array with an empty dimension cannot be
  read from a nested list); \<open>shape\<close> is \<^verbatim>\<open>.shape\<close>.
\<close>

type_synonym 'a array3 = "'a list list list"

definition shape :: "'a array3 \<Rightarrow> nat list" where
  "shape a =
     [length a,
      (case a of [] \<Rightarrow> 0 | p # _ \<Rightarrow> length p),
      (case a of [] \<Rightarrow> 0 | p # _ \<Rightarrow> (case p of [] \<Rightarrow> 0 | r # _ \<Rightarrow> length r))]"

text \<open>
  Lines 294--299. \<open>maxes\<close> is the first list, updated in place by index; an index past its
  end raises.
\<close>

fun max_by_axis_items :: "nat list \<Rightarrow> (nat \<times> nat) list \<Rightarrow> error + nat list" where
  "max_by_axis_items maxes [] = Inr maxes"
| "max_by_axis_items maxes ((index, item) # rest) =
     (if index < length maxes
      then max_by_axis_items (maxes[index := max (maxes ! index) item]) rest
      else Inl IndexError)"

fun max_by_axis_sublists :: "nat list \<Rightarrow> nat list list \<Rightarrow> error + nat list" where
  "max_by_axis_sublists maxes [] = Inr maxes"
| "max_by_axis_sublists maxes (sublist # rest) =
     (case max_by_axis_items maxes (enumerate 0 sublist) of
        Inl e \<Rightarrow> Inl e
      | Inr maxes' \<Rightarrow> max_by_axis_sublists maxes' rest)"

definition max_by_axis :: "nat list list \<Rightarrow> error + nat list" where
  "max_by_axis the_list =
     (case the_list of
        [] \<Rightarrow> Inl IndexError
      | first # rest \<Rightarrow> max_by_axis_sublists first rest)"

text \<open>
  \<^verbatim>\<open>np.zeros\<close> with a shape, and the slice assignment
  \<^verbatim>\<open>dst[:s0, :s1, :s2] = src\<close> for a source of shape \<open>(s0, s1, s2)\<close> that fits in the
  destination: the source overwrites the top-left corner.
\<close>

definition full3 :: "nat \<Rightarrow> nat \<Rightarrow> nat \<Rightarrow> 'a \<Rightarrow> 'a array3" where
  "full3 c h w v = replicate c (replicate h (replicate w v))"

fun overlay :: "('a \<Rightarrow> 'b \<Rightarrow> 'a) \<Rightarrow> 'a list \<Rightarrow> 'b list \<Rightarrow> 'a list" where
  "overlay f [] ys = []"
| "overlay f (x # xs) [] = x # xs"
| "overlay f (x # xs) (y # ys) = f x y # overlay f xs ys"

definition paste3 :: "'a array3 \<Rightarrow> 'a array3 \<Rightarrow> 'a array3" where
  "paste3 dst src = overlay (overlay (overlay (\<lambda>old new. new))) dst src"

text \<open>Line 355: \<^verbatim>\<open>mask[:n, :m] = True\<close> on an integer plane.\<close>

definition fill_true :: "nat \<Rightarrow> nat \<Rightarrow> int plane \<Rightarrow> int plane" where
  "fill_true n m plane =
     map (\<lambda>(i, row). map (\<lambda>(j, v). if i < n \<and> j < m then 1 else v) (enumerate 0 row))
       (enumerate 0 plane)"

text \<open>
  An annotation is a dict; the keys the file reads or writes are \<^verbatim>\<open>"masks"\<close>,
  \<^verbatim>\<open>"labels"\<close> and \<^verbatim>\<open>"original_size"\<close>, each present or absent.
\<close>

record annotation =
  ann_masks :: "bool array3 option"
  ann_labels :: "int list option"
  ann_original_size :: "(int \<times> int) option"

text \<open>The \<open>data\<close> dict of lines 359--364.\<close>

record encoded =
  pixel_values :: "real array3 list"
  pixel_mask :: "int plane list"
  mask_labels :: "bool array3 list"
  class_labels :: "int list list"

text \<open>
  \<^verbatim>\<open>TensorType\<close> (from \<^verbatim>\<open>file_utils\<close>) with its four members;
  \<open>return_tensors\<close> is \<open>None\<close> or the name of one of them.
\<close>

datatype tensor_type = PYTORCH | TENSORFLOW | NUMPY | JAX

text \<open>Python truthiness of \<open>annotations\<close>: neither \<open>None\<close> nor the empty list.\<close>

definition truthy :: "'a list option \<Rightarrow> bool" where
  "truthy xs = (case xs of None \<Rightarrow> False | Some [] \<Rightarrow> False | Some (_ # _) \<Rightarrow> True)"

text \<open>Lines 343--351: the target of item \<open>idx\<close>, when annotations are given.\<close>

definition encode_target ::
  "bool \<Rightarrow> nat \<Rightarrow> nat \<Rightarrow> annotation list option \<Rightarrow> nat \<Rightarrow> encoded \<Rightarrow> error + encoded" where
  "encode_target pad_and_return_pixel_mask height width annotations idx acc =
     (if truthy annotations
      then
        (case annotations of
           None \<Rightarrow> Inr acc
         | Some anns \<Rightarrow>
             if length anns \<le> idx then Inl IndexError
             else
               (case ann_masks (anns ! idx) of
                  None \<Rightarrow> Inl (KeyError ''masks'')
                | Some masks0 \<Rightarrow>
                    (let masks1 =
                           (if pad_and_return_pixel_mask
                            then
                              (let padded_masks = full3 (shape masks0 ! 0) height width False
                               in paste3 padded_masks padded_masks)
                            else masks0)
                     in case ann_labels (anns ! idx) of
                          None \<Rightarrow> Inl (KeyError ''labels'')
                        | Some labels0 \<Rightarrow>
                            Inr (acc\<lparr>mask_labels := mask_labels acc @ [masks1],
                                     class_labels := class_labels acc @ [labels0]\<rparr>))))
      else Inr acc)"

text \<open>
  Lines 335--356, one iteration. After line 340 the name \<open>image\<close> is bound to the padded
  image, and line 355 reads the shape of whatever \<open>image\<close> is bound to then.
\<close>

definition encode_item ::
  "bool \<Rightarrow> nat \<Rightarrow> nat \<Rightarrow> nat \<Rightarrow> annotation list option \<Rightarrow> nat \<Rightarrow> real array3 \<Rightarrow> encoded
     \<Rightarrow> error + encoded" where
  "encode_item pad_and_return_pixel_mask c height width annotations idx img acc =
     (let image1 =
            (if pad_and_return_pixel_mask
             then
               (let padded_image = full3 c height width 0
                in paste3 padded_image img)
             else img);
          acc1 = acc\<lparr>pixel_values := pixel_values acc @ [image1]\<rparr>
      in case encode_target pad_and_return_pixel_mask height width annotations idx acc1 of
           Inl e \<Rightarrow> Inl e
         | Inr acc2 \<Rightarrow>
             if pad_and_return_pixel_mask
             then
               (let mask1 = fill_true (shape image1 ! 1) (shape image1 ! 2)
                              (replicate height (replicate width 0))
                in Inr (acc2\<lparr>pixel_mask := pixel_mask acc2 @ [mask1]\<rparr>))
             else Inr acc2)"

fun encode_loop ::
  "bool \<Rightarrow> nat \<Rightarrow> nat \<Rightarrow> nat \<Rightarrow> annotation list option \<Rightarrow> (nat \<times> real array3) list \<Rightarrow> encoded
     \<Rightarrow> error + encoded" where
  "encode_loop pad c height width annotations [] acc = Inr acc"
| "encode_loop pad c height width annotations ((idx, img) # rest) acc =
     (case encode_item pad c height width annotations idx img acc of
        Inl e \<Rightarrow> Inl e
      | Inr acc' \<Rightarrow> encode_loop pad c height width annotations rest acc')"

text \<open>
  Lines 328--364: the \<open>data\<close> dict. Unpacking \<open>max_size\<close> into three names raises unless it
  has three entries.
\<close>

definition encode_inputs_data ::
  "real array3 list \<Rightarrow> annotation list option \<Rightarrow> bool \<Rightarrow> error + encoded" where
  "encode_inputs_data pixel_values_list annotations pad_and_return_pixel_mask =
     (case max_by_axis (map shape pixel_values_list) of
        Inl e \<Rightarrow> Inl e
      | Inr max_size \<Rightarrow>
          (case max_size of
             [c, height, width] \<Rightarrow>
               encode_loop pad_and_return_pixel_mask c height width annotations
                 (enumerate 0 pixel_values_list)
                 \<lparr>pixel_values = [], pixel_mask = [], mask_labels = [], class_labels = []\<rparr>
           | _ \<Rightarrow> Inl (ValueError ''unpack'')))"

text \<open>
  Lines 301--378. \<^verbatim>\<open>BatchFeature\<close> and \<^verbatim>\<open>is_torch_available\<close> belong to other
  files: the constructor enters as the parameter \<open>batch_feature\<close> (it may raise when it
  converts the lists to tensors), the availability of PyTorch as \<open>torch_available\<close>.
  \<^verbatim>\<open>TensorType(None)\<close> raises.
\<close>

definition encode_inputs ::
  "(encoded \<Rightarrow> tensor_type option \<Rightarrow> error + 'bf) \<Rightarrow> bool
     \<Rightarrow> real array3 list \<Rightarrow> annotation list option \<Rightarrow> bool \<Rightarrow> tensor_type option \<Rightarrow> error + 'bf" where
  "encode_inputs batch_feature torch_available pixel_values_list annotations
       pad_and_return_pixel_mask return_tensors =
     (case encode_inputs_data pixel_values_list annotations pad_and_return_pixel_mask of
        Inl e \<Rightarrow> Inl e
      | Inr d \<Rightarrow>
          (case batch_feature d return_tensors of
             Inl e \<Rightarrow> Inl e
           | Inr encoded_inputs \<Rightarrow>
               if truthy annotations
               then
                 (case return_tensors of
                    None \<Rightarrow> Inl (ValueError ''None is not a valid TensorType'')
                  | Some t \<Rightarrow>
                      if t \<noteq> PYTORCH then Inl (ValueError ''Only PyTorch is supported for the moment.'')
                      else if \<not> torch_available
                      then Inl (ImportError ''PyTorch is not installed.'')
                      else Inr encoded_inputs)
               else Inr encoded_inputs))"

text \<open>A \<^verbatim>\<open>BatchFeature\<close> that holds the data as given, for evaluating concrete calls.\<close>

definition plain_batch_feature :: "encoded \<Rightarrow> tensor_type option \<Rightarrow> error + encoded \<times> tensor_type option" where
  "plain_batch_feature d t = Inr (d, t)"

subsection \<open>The feature extractor's \<^verbatim>\<open>__call__\<close>\<close>

text \<open>
  A Python object given as an image is a PIL image, a NumPy array, a PyTorch tensor, or
  something else; the \<open>images\<close> argument is one object or a list of them.
\<close>

datatype image_kind = PIL | NDARRAY | TENSOR

datatype py_image = Img image_kind "real array3" | NotAnImage

datatype images_arg = Single py_image | Sequence "py_image list"

datatype annotations_arg = AnnDict annotation | AnnList "annotation list"

text \<open>The attributes set by \<^verbatim>\<open>__init__\<close> (lines 79--88), and its defaults.\<close>

record feature_extractor =
  fe_do_resize :: bool
  fe_size :: "size_arg option"
  fe_max_size :: "int option"
  fe_do_normalize :: bool
  fe_image_mean :: "real list"
  fe_image_std :: "real list"

definition default_feature_extractor :: feature_extractor where
  "default_feature_extractor =
     \<lparr>fe_do_resize = True, fe_size = Some (Scalar 800), fe_max_size = Some 1333,
      fe_do_normalize = True,
      fe_image_mean = [485 / 1000, 456 / 1000, 406 / 1000],
      fe_image_std = [229 / 1000, 224 / 1000, 225 / 1000]\<rparr>"

text \<open>
  The methods inherited from \<^verbatim>\<open>ImageFeatureExtractionMixin\<close> and the PyTorch
  interpolation are not part of the file; they enter as parameters, each able to raise:
  \<^verbatim>\<open>to_pil_image\<close>, \<^verbatim>\<open>image.size\<close> (width, height), \<^verbatim>\<open>self.resize\<close>,
  \<^verbatim>\<open>nn.functional.interpolate\<close> in nearest mode to (height, width), and
  \<^verbatim>\<open>self.normalize\<close>.
\<close>

record externals =
  ext_to_pil_image :: "py_image \<Rightarrow> error + py_image"
  ext_image_size :: "py_image \<Rightarrow> int \<times> int"
  ext_resize :: "py_image \<Rightarrow> int \<times> int \<Rightarrow> error + py_image"
  ext_interpolate :: "real array3 \<Rightarrow> int \<times> int \<Rightarrow> error + real array3"
  ext_normalize :: "py_image \<Rightarrow> real list \<Rightarrow> real list \<Rightarrow> error + py_image"

definition is_pil :: "py_image \<Rightarrow> bool" where
  "is_pil x = (case x of Img PIL _ \<Rightarrow> True | _ \<Rightarrow> False)"

definition is_image :: "py_image \<Rightarrow> bool" where
  "is_image x = (case x of Img _ _ \<Rightarrow> True | NotAnImage \<Rightarrow> False)"

text \<open>
  Lines 90--146, \<^verbatim>\<open>_resize\<close>, up to line 131: the PIL image, the new
  \<open>(width, height)\<close> and the rescaled image.
\<close>

definition resize_image ::
  "externals \<Rightarrow> py_image \<Rightarrow> size_arg \<Rightarrow> int option \<Rightarrow> error + (py_image \<times> (int \<times> int) \<times> py_image)" where
  "resize_image ext img sz max_size =
     (case (if is_pil img then Inr img else ext_to_pil_image ext img) of
        Inl e \<Rightarrow> Inl e
      | Inr image1 \<Rightarrow>
          (case get_size (ext_image_size ext image1) sz max_size of
             Inl e \<Rightarrow> Inl e
           | Inr size1 \<Rightarrow>
               (case ext_resize ext image1 size1 of
                  Inl e \<Rightarrow> Inl e
                | Inr rescaled_image \<Rightarrow> Inr (image1, size1, rescaled_image))))"

text \<open>\<^verbatim>\<open>_resize\<close> with \<open>target=None\<close>: the first component of its result.\<close>

definition resize_without_target ::
  "externals \<Rightarrow> py_image \<Rightarrow> size_arg \<Rightarrow> int option \<Rightarrow> error + py_image" where
  "resize_without_target ext img sz max_size =
     (case resize_image ext img sz max_size of
        Inl e \<Rightarrow> Inl e
      | Inr (image1, size1, rescaled_image) \<Rightarrow> Inr rescaled_image)"

text \<open>
  \<^verbatim>\<open>_resize\<close> with a target (lines 135--144): the copy gets the original size, and
  its masks, when it has any, are interpolated as floats and binarised at 0.5.
\<close>

definition resize_with_target ::
  "externals \<Rightarrow> py_image \<Rightarrow> size_arg \<Rightarrow> annotation \<Rightarrow> int option \<Rightarrow> error + (py_image \<times> annotation)" where
  "resize_with_target ext img sz target max_size =
     (case resize_image ext img sz max_size of
        Inl e \<Rightarrow> Inl e
      | Inr (image1, (width, height), rescaled_image) \<Rightarrow>
          (let target1 = target\<lparr>ann_original_size := Some (ext_image_size ext image1)\<rparr>
           in case ann_masks target1 of
                None \<Rightarrow> Inr (rescaled_image, target1)
              | Some m \<Rightarrow>
                  (case ext_interpolate ext (map (map (map (\<lambda>b. if b then 1 else 0))) m) (height, width) of
                     Inl e \<Rightarrow> Inl e
                   | Inr interpolated \<Rightarrow>
                       Inr (rescaled_image,
                            target1\<lparr>ann_masks := Some (map (map (map (\<lambda>v. 1 / 2 < v))) interpolated)\<rparr>))))"

text \<open>Lines 148--157, \<^verbatim>\<open>_normalize\<close>: the target is handed back as it came.\<close>

definition normalize_private ::
  "externals \<Rightarrow> py_image \<Rightarrow> real list \<Rightarrow> real list \<Rightarrow> error + py_image" where
  "normalize_private ext img mean std = ext_normalize ext img mean std"

text \<open>A loop whose body can raise: the first exception ends it.\<close>

fun map_raising :: "('a \<Rightarrow> error + 'b) \<Rightarrow> 'a list \<Rightarrow> error + 'b list" where
  "map_raising f [] = Inr []"
| "map_raising f (x # xs) =
     (case f x of
        Inl e \<Rightarrow> Inl e
      | Inr y \<Rightarrow> (case map_raising f xs of Inl e \<Rightarrow> Inl e | Inr ys \<Rightarrow> Inr (y # ys)))"

text \<open>Lines 211--225: the type check of \<open>images\<close>.\<close>

definition valid_images :: "images_arg \<Rightarrow> bool" where
  "valid_images images =
     (case images of
        Single x \<Rightarrow> is_image x
      | Sequence xs \<Rightarrow> (case xs of [] \<Rightarrow> True | x # _ \<Rightarrow> is_image x))"

text \<open>Lines 227--230: \<open>images[0]\<close> of an empty list raises.\<close>

definition is_batched :: "images_arg \<Rightarrow> error + bool" where
  "is_batched images =
     (case images of
        Single x \<Rightarrow> Inr False
      | Sequence xs \<Rightarrow> (case xs of [] \<Rightarrow> Inl IndexError | x # _ \<Rightarrow> Inr (is_image x)))"

text \<open>
  Lines 232--233: the list of images. (A list that is not a batch would be wrapped as one
  object; after the two checks above that case does not arise.)
\<close>

definition image_list :: "bool \<Rightarrow> images_arg \<Rightarrow> py_image list" where
  "image_list batched images =
     (case images of
        Single x \<Rightarrow> [x]
      | Sequence xs \<Rightarrow> if batched then xs else [NotAnImage])"

text \<open>
  Lines 234--250: a single example's annotations are wrapped in a list; then
  \<open>annotations\<close> must be a list whose first entry has the keys \<^verbatim>\<open>"masks"\<close> and
  \<^verbatim>\<open>"labels"\<close>. A list wrapped in a list, or a dict given with a batch, fails the
  check; \<open>annotations[0]\<close> of an empty list raises.
\<close>

definition has_masks_and_labels :: "annotation \<Rightarrow> bool" where
  "has_masks_and_labels d = (ann_masks d \<noteq> None \<and> ann_labels d \<noteq> None)"

definition check_annotations :: "bool \<Rightarrow> annotations_arg option \<Rightarrow> error + annotation list option" where
  "check_annotations batched annotations =
     (case annotations of
        None \<Rightarrow> Inr None
      | Some (AnnDict d) \<Rightarrow>
          if batched then Inl (ValueError ''Annotations must of type Dict or List[Dict]'')
          else if has_masks_and_labels d then Inr (Some [d])
          else Inl (ValueError ''Annotations must of type Dict or List[Dict]'')
      | Some (AnnList ds) \<Rightarrow>
          if batched
          then (case ds of
                  [] \<Rightarrow> Inl IndexError
                | d # _ \<Rightarrow>
                    if has_masks_and_labels d then Inr (Some ds)
                    else Inl (ValueError ''Annotations must of type Dict or List[Dict]''))
          else Inl (ValueError ''Annotations must of type Dict or List[Dict]''))"

text \<open>Lines 211--250 together: the checked lists of images and annotations.\<close>

definition validate ::
  "images_arg \<Rightarrow> annotations_arg option \<Rightarrow> error + (py_image list \<times> annotation list option)" where
  "validate images annotations =
     (if \<not> valid_images images then Inl (ValueError ''Images must of type PIL.Image.Image, np.ndarray or torch.Tensor'')
      else
        (case is_batched images of
           Inl e \<Rightarrow> Inl e
         | Inr batched \<Rightarrow>
             (case check_annotations batched annotations of
                Inl e \<Rightarrow> Inl e
              | Inr annotations1 \<Rightarrow> Inr (image_list batched images, annotations1))))"

text \<open>
  Lines 253--261: resizing. With annotations the loop runs over \<open>zip(images, annotations)\<close>
  and writes both lists by index; entries past the shorter list stay as they are.
\<close>

definition resize_all ::
  "feature_extractor \<Rightarrow> externals \<Rightarrow> py_image list \<Rightarrow> annotation list option
     \<Rightarrow> error + (py_image list \<times> annotation list option)" where
  "resize_all fe ext images annotations =
     (if fe_do_resize fe \<and> fe_size fe \<noteq> None
      then
        (case fe_size fe of
           None \<Rightarrow> Inr (images, annotations)
         | Some sz \<Rightarrow>
             (case annotations of
                Some anns \<Rightarrow>
                  (case map_raising (\<lambda>(img, target). resize_with_target ext img sz target (fe_max_size fe))
                          (zip images anns) of
                     Inl e \<Rightarrow> Inl e
                   | Inr rs \<Rightarrow>
                       Inr (map fst rs @ drop (length rs) images,
                            Some (map snd rs @ drop (length rs) anns)))
              | None \<Rightarrow>
                  (case map_raising (\<lambda>img. resize_without_target ext img sz (fe_max_size fe)) images of
                     Inl e \<Rightarrow> Inl e
                   | Inr images1 \<Rightarrow> Inr (images1, None))))
      else Inr (images, annotations))"

text \<open>Lines 263--274: normalisation.\<close>

definition normalize_all ::
  "feature_extractor \<Rightarrow> externals \<Rightarrow> py_image list \<Rightarrow> annotation list option
     \<Rightarrow> error + (py_image list \<times> annotation list option)" where
  "normalize_all fe ext images annotations =
     (if fe_do_normalize fe
      then
        (case annotations of
           Some anns \<Rightarrow>
             (case map_raising (\<lambda>(img, target).
                       case normalize_private ext img (fe_image_mean fe) (fe_image_std fe) of
                         Inl e \<Rightarrow> Inl e
                       | Inr img1 \<Rightarrow> Inr (img1, target))
                     (zip images anns) of
                Inl e \<Rightarrow> Inl e
              | Inr rs \<Rightarrow>
                  Inr (map fst rs @ drop (length rs) images,
                       Some (map snd rs @ drop (length rs) anns)))
         | None \<Rightarrow>
             (case map_raising (\<lambda>img. normalize_private ext img (fe_image_mean fe) (fe_image_std fe)) images of
                Inl e \<Rightarrow> Inl e
              | Inr images1 \<Rightarrow> Inr (images1, None)))
      else Inr (images, annotations))"

text \<open>Lines 252--274: the transformations, resizing first.\<close>

definition transform ::
  "feature_extractor \<Rightarrow> externals \<Rightarrow> py_image list \<Rightarrow> annotation list option
     \<Rightarrow> error + (py_image list \<times> annotation list option)" where
  "transform fe ext images annotations =
     (case resize_all fe ext images annotations of
        Inl e \<Rightarrow> Inl e
      | Inr (images1, annotations1) \<Rightarrow> normalize_all fe ext images1 annotations1)"

text \<open>
  Binding the arguments of a call: a keyword argument must name a parameter that no
  positional argument has taken; any other keyword raises \<^verbatim>\<open>TypeError\<close>.
  \<open>encode_inputs_parameters\<close> are the parameters of lines 303--306 (after \<open>self\<close>).
\<close>

definition encode_inputs_parameters :: "string list" where
  "encode_inputs_parameters =
     [''pixel_values_list'', ''annotations'', ''pad_and_return_pixel_mask'', ''return_tensors'']"

definition bind_keywords :: "string list \<Rightarrow> nat \<Rightarrow> string list \<Rightarrow> error + unit" where
  "bind_keywords parameters n_positional keywords =
     (case filter (\<lambda>k. k \<notin> set (drop n_positional parameters)) keywords of
        [] \<Rightarrow> Inr ()
      | k # _ \<Rightarrow> Inl (TypeError k))"

text \<open>An object without \<^verbatim>\<open>.shape\<close> (a PIL image among them) raises at line 328.\<close>

definition array_of :: "py_image \<Rightarrow> error + real array3" where
  "array_of x =
     (case x of
        Img kind a \<Rightarrow> if kind = PIL then Inl (AttributeError ''shape'') else Inr a
      | NotAnImage \<Rightarrow> Inl (AttributeError ''shape''))"

text \<open>
  Lines 276--278: the call \<^verbatim>\<open>self.encode_inputs(images, annotations,
  should_pad=pad_and_return_pixel_mask, return_tensors=return_tensors)\<close>, two positional
  arguments and two keywords. Were the keywords accepted, \<open>pad_and_return_pixel_mask\<close>
  would keep its default \<open>True\<close>.
\<close>

definition call_encode_inputs ::
  "(encoded \<Rightarrow> tensor_type option \<Rightarrow> error + 'bf) \<Rightarrow> bool
     \<Rightarrow> py_image list \<Rightarrow> annotation list option \<Rightarrow> bool \<Rightarrow> tensor_type option \<Rightarrow> error + 'bf" where
  "call_encode_inputs batch_feature torch_available images annotations should_pad return_tensors =
     (case bind_keywords encode_inputs_parameters 2 [''should_pad'', ''return_tensors''] of
        Inl e \<Rightarrow> Inl e
      | Inr _ \<Rightarrow>
          (case map_raising array_of images of
             Inl e \<Rightarrow> Inl e
           | Inr pixel_values_list \<Rightarrow>
               encode_inputs batch_feature torch_available pixel_values_list annotations True
                 return_tensors))"

text \<open>Lines 159--292, \<^verbatim>\<open>__call__\<close>.\<close>

definition feature_extractor_call ::
  "feature_extractor \<Rightarrow> externals \<Rightarrow> (encoded \<Rightarrow> tensor_type option \<Rightarrow> error + 'bf) \<Rightarrow> bool
     \<Rightarrow> images_arg \<Rightarrow> annotations_arg option \<Rightarrow> bool \<Rightarrow> tensor_type option \<Rightarrow> error + 'bf" where
  "feature_extractor_call fe ext batch_feature torch_available images annotations
       pad_and_return_pixel_mask return_tensors =
     (case validate images annotations of
        Inl e \<Rightarrow> Inl e
      | Inr (images1, annotations1) \<Rightarrow>
          (case transform fe ext images1 annotations1 of
             Inl e \<Rightarrow> Inl e
           | Inr (images2, annotations2) \<Rightarrow>
               (case call_encode_inputs batch_feature torch_available images2 annotations2
                       pad_and_return_pixel_mask return_tensors of
                  Inl e \<Rightarrow> Inl e
                | Inr encoded_inputs \<Rightarrow>
                    (case annotations2 of
                       None \<Rightarrow> Inr encoded_inputs
                     | Some _ \<Rightarrow>
                         (case return_tensors of
                            None \<Rightarrow> Inl (ValueError ''None is not a valid TensorType'')
                          | Some t \<Rightarrow>
                              if t \<noteq> PYTORCH
                              then Inl (ValueError ''Only PyTorch is supported for the moment.'')
                              else if \<not> torch_available
                              then Inl (ImportError ''PyTorch is not installed.'')
                              else Inr encoded_inputs)))))"

text \<open>
  Stand-ins for the external methods, for evaluating concrete calls: they never raise
  and hand the image back; the size of an image is read from its array.
\<close>

definition passthrough_externals :: externals where
  "passthrough_externals =
     \<lparr>ext_to_pil_image = (\<lambda>img. Inr img),
      ext_image_size = (\<lambda>img. case img of
                                 Img _ a \<Rightarrow> (int (shape a ! 2), int (shape a ! 1))
                               | NotAnImage \<Rightarrow> (0, 0)),
      ext_resize = (\<lambda>img sz. Inr img),
      ext_interpolate = (\<lambda>m sz. Inr m),
      ext_normalize = (\<lambda>img mean std. Inr img)\<rparr>"

text \<open>
  The class table of the spec's end-to-end example: class 0 is the stuff class ``sky'',
  class 1 the thing class ``cat''; the null class is index 2.
\<close>

definition sky_cat :: "int \<rightharpoonup> class_spec" where
  "sky_cat = [0 \<mapsto> \<lparr>is_thing = False, label = ''sky''\<rparr>, 1 \<mapsto> \<lparr>is_thing = True, label = ''cat''\<rparr>]"

section \<open>Resizer properties\<close>

lemma capped_size_no_cap:
  assumes "0 < width" "0 < height" "\<not> cap_applies width height sz max_size"
  shows "capped_size width height sz max_size = Inr sz"
  using assms
  by (auto simp: capped_size_def cap_applies_def py_truediv_def Let_def split: option.splits)

text \<open>
  Claim C9. For positive \<open>(width, height)\<close> and a scalar short-edge target \<open>s\<close>: when the
  shorter edge already equals \<open>s\<close> and the cap does not apply, the computed dimensions are
  the input dimensions, unchanged (as \<open>(height, width)\<close> from
  \<open>get_size_with_aspect_ratio\<close>, as \<open>(width, height)\<close> from \<open>get_size\<close>).
\<close>

theorem resizer_exact_match_identity:
  assumes "0 < width" and "0 < height"
    and "min width height = s"
    and "\<not> cap_applies width height s max_size"
  shows "get_size_with_aspect_ratio (width, height) s max_size = Inr (height, width)
       \<and> get_size (width, height) (Scalar s) max_size = Inr (width, height)"
proof -
  have cs: "capped_size width height s max_size = Inr s"
    using assms(1,2,4) by (rule capped_size_no_cap)
  have short: "(width \<le> height \<and> width = s) \<or> (height \<le> width \<and> height = s)"
    using assms(3) by (auto simp: min_def split: if_splits)
  have g: "get_size_with_aspect_ratio (width, height) s max_size = Inr (height, width)"
    using short by (simp add: get_size_with_aspect_ratio_def cs)
  then show ?thesis by (simp add: get_size_def)
qed

theorem resizer_exact_match_identity_witness:
  "min (800::int) 1000 = 800 \<and> \<not> cap_applies 800 1000 800 (Some 1333)
   \<and> get_size_with_aspect_ratio (800, 1000) 800 (Some 1333) = Inr (1000, 800)
   \<and> get_size (800, 1000) (Scalar 800) (Some 1333) = Inr (800, 1000)"
proof -
  have nc: "\<not> cap_applies 800 1000 800 (Some 1333)"
    by (simp add: cap_applies_def)
  show ?thesis
    using resizer_exact_match_identity [of 800 1000 800 "Some 1333"] nc by simp
qed

lemma py_round_bounds: "x - 1/2 \<le> real_of_int (py_round x) \<and> real_of_int (py_round x) \<le> x + 1/2"
  unfolding py_round_def Let_def by (auto; linarith)

lemma py_round_nonneg: "0 \<le> x \<Longrightarrow> 0 \<le> py_round x"
  unfolding py_round_def Let_def by (auto; linarith)

lemma capped_size_cap:
  assumes "0 < width" "0 < height" "cap_applies width height sz (Some ms)"
  shows "capped_size width height sz (Some ms) =
           Inr (py_round (real_of_int ms * real_of_int (min width height) / real_of_int (max width height)))"
  using assms
  by (auto simp: capped_size_def cap_applies_def py_truediv_def Let_def)

text \<open>The scaled long edge is at most half an aspect ratio below the cap.\<close>

lemma scaled_long_edge_lower:
  fixes S L ms :: int
  assumes S: "0 < S" and L: "S \<le> L"
  shows "real_of_int ms - real_of_int L / (2 * real_of_int S)
           \<le> real_of_int (py_round (real_of_int ms * real_of_int S / real_of_int L))
               * real_of_int L / real_of_int S"
proof -
  define q where "q = real_of_int ms * real_of_int S / real_of_int L"
  define r where "r = real_of_int L / real_of_int S"
  have rpos: "0 < r" using S L by (simp add: r_def)
  have qr: "q * r = real_of_int ms" using S L by (simp add: q_def r_def)
  have b: "q - 1/2 \<le> real_of_int (py_round q)"
    using py_round_bounds [of q] by simp
  have "(q - 1/2) * r \<le> real_of_int (py_round q) * r"
    using b rpos by (simp add: mult_right_mono)
  then have "real_of_int ms - r / 2 \<le> real_of_int (py_round q) * r"
    using qr by (simp add: algebra_simps)
  then show ?thesis by (simp add: q_def r_def)
qed

text \<open>
  Claim C8, as stated, fails: for a 400 x 1000 image, short-edge target 800 and cap 1333
  the cap applies, the target shrinks to \<open>round (533.2) = 533\<close> and the long edge becomes
  \<open>int (1332.5) = 1332\<close>, not 1333.
\<close>

theorem resizer_cap_counterexample:
  "cap_applies 400 1000 800 (Some 1333)
   \<and> get_size_with_aspect_ratio (400, 1000) 800 (Some 1333) = Inr (1332, 533)
   \<and> max (1332::int) 533 \<noteq> 1333"
  by (simp add: cap_applies_def get_size_with_aspect_ratio_def capped_size_def
      py_truediv_def py_round_def py_int_def Let_def)

text \<open>
  Claim C8, amended. For positive \<open>(width, height)\<close> and a positive cap \<open>ms\<close>: when the
  cap applies, the computation succeeds, the shorter output edge is the shrunk target
  \<open>round (ms * short / long)\<close>, and the longer output edge is greater than
  \<open>ms - long / (2 * short) - 1\<close>: integer rounding can leave it short of the cap by that
  much, so it need not equal \<open>ms\<close>.
\<close>

theorem resizer_cap_long_edge:
  assumes w: "0 < width" and h: "0 < height" and ms: "0 < ms"
    and cap: "cap_applies width height s (Some ms)"
  shows "\<exists>oh ow. get_size_with_aspect_ratio (width, height) s (Some ms) = Inr (oh, ow)
           \<and> min oh ow = py_round (real_of_int ms * real_of_int (min width height) / real_of_int (max width height))
           \<and> real_of_int ms - real_of_int (max width height) / (2 * real_of_int (min width height)) - 1
                < real_of_int (max oh ow)"
proof -
  define S where "S = min width height"
  define L where "L = max width height"
  define sz' where "sz' = py_round (real_of_int ms * real_of_int S / real_of_int L)"
  define x where "x = real_of_int sz' * real_of_int L / real_of_int S"
  have S: "0 < S" and L: "S \<le> L" using w h by (auto simp: S_def L_def)
  have cs: "capped_size width height s (Some ms) = Inr sz'"
    using capped_size_cap [OF w h cap] by (simp add: sz'_def S_def L_def)
  have lo: "real_of_int ms - real_of_int L / (2 * real_of_int S) \<le> x"
    using scaled_long_edge_lower [OF S L, of ms] by (simp add: x_def sz'_def)
  have sz0: "0 \<le> sz'"
    unfolding sz'_def using ms S L by (intro py_round_nonneg) simp
  have x_ge: "real_of_int sz' \<le> x"
  proof -
    have "real_of_int sz' * real_of_int S \<le> real_of_int sz' * real_of_int L"
      using sz0 L by (intro mult_left_mono) simp_all
    then show ?thesis using S by (simp add: x_def field_simps)
  qed
  have x0: "0 \<le> x" using sz0 x_ge by linarith
  have fl: "sz' \<le> \<lfloor>x\<rfloor>" using x_ge by (simp add: le_floor_iff)
  have fx: "x - 1 < real_of_int \<lfloor>x\<rfloor>" by linarith
  show ?thesis
  proof (cases "(width \<le> height \<and> width = sz') \<or> (height \<le> width \<and> height = sz')")
    case True
    then have g: "get_size_with_aspect_ratio (width, height) s (Some ms) = Inr (height, width)"
      by (simp add: get_size_with_aspect_ratio_def cs)
    from True have Ssz: "S = sz'" by (auto simp: S_def)
    have xL: "x = real_of_int L" using S Ssz by (simp add: x_def)
    have mx: "max height width = L" "min height width = S" by (auto simp: L_def S_def)
    show ?thesis
    proof (intro exI conjI)
      show "get_size_with_aspect_ratio (width, height) s (Some ms) = Inr (height, width)" by (rule g)
      show "min height width = py_round (real_of_int ms * real_of_int (min width height) / real_of_int (max width height))"
        using mx(2) Ssz by (simp add: sz'_def S_def L_def)
      show "real_of_int ms - real_of_int (max width height) / (2 * real_of_int (min width height)) - 1
                < real_of_int (max height width)"
        using lo xL unfolding mx S_def L_def by linarith
    qed
  next
    case False
    show ?thesis
    proof (cases "width < height")
      case True
      then have SL: "S = width" "L = height" by (auto simp: S_def L_def)
      have g: "get_size_with_aspect_ratio (width, height) s (Some ms) = Inr (\<lfloor>x\<rfloor>, sz')"
        using False True w x0
        by (simp add: get_size_with_aspect_ratio_def cs py_truediv_def py_int_def x_def SL)
      have mm: "max \<lfloor>x\<rfloor> sz' = \<lfloor>x\<rfloor>" "min \<lfloor>x\<rfloor> sz' = sz'" using fl by simp_all
      show ?thesis
      proof (intro exI conjI)
        show "get_size_with_aspect_ratio (width, height) s (Some ms) = Inr (\<lfloor>x\<rfloor>, sz')" by (rule g)
        show "min \<lfloor>x\<rfloor> sz' = py_round (real_of_int ms * real_of_int (min width height) / real_of_int (max width height))"
          unfolding mm by (simp add: sz'_def S_def L_def)
        show "real_of_int ms - real_of_int (max width height) / (2 * real_of_int (min width height)) - 1
                < real_of_int (max \<lfloor>x\<rfloor> sz')"
          using lo fx unfolding mm S_def L_def by linarith
      qed
    next
      case nlt: False
      then have SL: "S = height" "L = width" by (auto simp: S_def L_def)
      have g: "get_size_with_aspect_ratio (width, height) s (Some ms) = Inr (sz', \<lfloor>x\<rfloor>)"
        using False nlt h x0
        by (simp add: get_size_with_aspect_ratio_def cs py_truediv_def py_int_def x_def SL)
      have mm: "max sz' \<lfloor>x\<rfloor> = \<lfloor>x\<rfloor>" "min sz' \<lfloor>x\<rfloor> = sz'" using fl by simp_all
      show ?thesis
      proof (intro exI conjI)
        show "get_size_with_aspect_ratio (width, height) s (Some ms) = Inr (sz', \<lfloor>x\<rfloor>)" by (rule g)
        show "min sz' \<lfloor>x\<rfloor> = py_round (real_of_int ms * real_of_int (min width height) / real_of_int (max width height))"
          unfolding mm by (simp add: sz'_def S_def L_def)
        show "real_of_int ms - real_of_int (max width height) / (2 * real_of_int (min width height)) - 1
                < real_of_int (max sz' \<lfloor>x\<rfloor>)"
          using lo fx unfolding mm S_def L_def by linarith
      qed
    qed
  qed
qed

theorem resizer_cap_long_edge_witness:
  "(0::int) < 400 \<and> (0::int) < 1000 \<and> (0::int) < 1333 \<and> cap_applies 400 1000 800 (Some 1333)
   \<and> (\<exists>oh ow. get_size_with_aspect_ratio (400, 1000) 800 (Some 1333) = Inr (oh, ow)
         \<and> min oh ow = 533
         \<and> real_of_int 1333 - 1000 / (2 * 400) - 1 < real_of_int (max oh ow))"
proof -
  have cap: "cap_applies 400 1000 800 (Some 1333)"
    by (simp add: cap_applies_def)
  have r: "py_round (real_of_int 1333 * real_of_int (min 400 1000) / real_of_int (max 400 1000)) = 533"
    by (simp add: py_round_def Let_def)
  show ?thesis
    using resizer_cap_long_edge [of 400 1000 1333 800] cap r by simp
qed

section \<open>Query filtering properties\<close>

lemma select_map2:
  "length ms = length ss \<Longrightarrow> length ss = length ls \<Longrightarrow>
   select (map2 (\<lambda>l s. P l s) ls ss) ms = map fst (filter (\<lambda>(m, s, l). P l s) (zip ms (zip ss ls)))
 \<and> select (map2 (\<lambda>l s. P l s) ls ss) ss = map (fst \<circ> snd) (filter (\<lambda>(m, s, l). P l s) (zip ms (zip ss ls)))
 \<and> select (map2 (\<lambda>l s. P l s) ls ss) ls = map (snd \<circ> snd) (filter (\<lambda>(m, s, l). P l s) (zip ms (zip ss ls)))"
  by (induction ms ss ls rule: list_induct3) (simp_all add: select_def)

text \<open>The default threshold 0.8 in single precision (\<open>16777216 = 2 ^ 24\<close>).\<close>

lemma float32_default_threshold: "float32 (4 / 5) = 13421773 / 16777216"
  by code_simp

text \<open>
  Claim C10, as stated, fails. A query of class 0 with the single-precision score
  \<open>13421773 / 2 ^ 24\<close> (about 0.80000001) is strictly above the threshold 0.8, but the
  comparison of line 428 converts the threshold to single precision, to that same number,
  and the query is discarded.
\<close>

theorem remove_low_and_no_objects_counterexample:
  "(8 / 10 :: real) < 13421773 / 2 ^ 24
   \<and> (0 :: int) \<noteq> 2
   \<and> remove_low_and_no_objects float32 [[[1::real]]] [13421773 / 2 ^ 24] [0] (8 / 10) 2
       = Inr ([], [], [])"
  by (simp add: remove_low_and_no_objects_def select_def float32_default_threshold)

text \<open>
  Claim C10, amended. \<open>remove_low_and_no_objects\<close> raises its \<open>ValueError\<close> exactly when
  the three leading dimensions are not all equal; otherwise it returns the masks, scores
  and labels of the surviving queries, in their original order: those whose label is not
  the null class \<open>num_labels\<close> and whose score is strictly above the threshold as converted
  to the element type of the scores.
\<close>

theorem remove_low_and_no_objects_spec:
  "(remove_low_and_no_objects to_dtype masks scores labels thr num_labels
        = Inl (ValueError ''mask, scores and labels must have the same shape!'')
      \<longleftrightarrow> \<not> (length masks = length scores \<and> length scores = length labels))
   \<and> (isl (remove_low_and_no_objects to_dtype masks scores labels thr num_labels)
      \<longleftrightarrow> \<not> (length masks = length scores \<and> length scores = length labels))
   \<and> (length masks = length scores \<and> length scores = length labels \<longrightarrow>
        remove_low_and_no_objects to_dtype masks scores labels thr num_labels =
          Inr (map fst (surviving_queries masks scores labels (to_dtype thr) num_labels),
               map (fst \<circ> snd) (surviving_queries masks scores labels (to_dtype thr) num_labels),
               map (snd \<circ> snd) (surviving_queries masks scores labels (to_dtype thr) num_labels)))"
  using select_map2 [of masks scores labels "\<lambda>l s. l \<noteq> num_labels \<and> to_dtype thr < s"]
  by (auto simp: remove_low_and_no_objects_def surviving_queries_def Let_def)

theorem remove_low_and_no_objects_spec_witness:
  "remove_low_and_no_objects float32 [[[1]], [[1 / 2]], [[0]]] [9 / 10, 1 / 2, 95 / 100] [0, 1, 2] (8 / 10) 2
     = Inr ([[[1::real]]], [9 / 10], [0])
   \<and> remove_low_and_no_objects float32 [[[1::real]]] [9 / 10, 1 / 2] [0, 1] (8 / 10) 2
     = Inl (ValueError ''mask, scores and labels must have the same shape!'')"
  using remove_low_and_no_objects_spec
          [of float32 "[[[1]], [[1 / 2]], [[0]]] :: real plane list" "[9 / 10, 1 / 2, 95 / 100]"
              "[0, 1, 2]" "8 / 10" 2]
        remove_low_and_no_objects_spec
          [of float32 "[[[1]]] :: real plane list" "[9 / 10, 1 / 2]" "[0, 1]" "8 / 10" 2]
  by (simp add: surviving_queries_def float32_default_threshold)

section \<open>Panoptic merger: what the code returns\<close>

text \<open>
  For every image, \<open>results\<close> grows by one reference per surviving query: by none when
  no query survives.
\<close>

lemma no_survivor_no_result:
  assumes "remove_low_and_no_objects float32 mask_probs pred_scores pred_labels omt num_labels = Inr ([], ss, ls)"
  shows "process_image classes omt oat height width num_labels b (mask_probs, pred_scores, pred_labels) results0
           = Inr (results0, (replicate height (replicate width 0), []))"
  using assms by (simp add: process_image_def)

lemma merge_step_appends_result:
  "merge_step classes oat mprobs mlabels plabels b k st = Inr st' \<Longrightarrow>
   results st' = results st @ [b]"
  by (auto simp: merge_step_def Let_def split: option.splits if_splits)

lemma merge_loop_appends_results:
  "merge_loop classes oat mprobs mlabels plabels b ks st = Inr st' \<Longrightarrow>
   results st' = results st @ replicate (length ks) b"
proof (induction ks arbitrary: st)
  case Nil
  then show ?case by simp
next
  case (Cons k ks)
  then obtain st1 where s1: "merge_step classes oat mprobs mlabels plabels b k st = Inr st1"
    and l: "merge_loop classes oat mprobs mlabels plabels b ks st1 = Inr st'"
    by (auto split: sum.splits)
  from merge_step_appends_result [OF s1] Cons.IH [OF l]
  show ?case by (simp add: replicate_app_Cons_same)
qed

lemma select_length: "length (select bs xs) = length (filter (\<lambda>b. b) (take (length xs) bs))"
  unfolding select_def
proof (induction bs arbitrary: xs)
  case Nil
  then show ?case by simp
next
  case (Cons b bs)
  then show ?case by (cases xs) simp_all
qed

lemma remove_low_lengths:
  assumes "remove_low_and_no_objects to_dtype ms0 ss0 ls0 omt nl = Inr (ms, ss, ls)"
  shows "length ms = length ls"
  using assms
  by (auto simp: remove_low_and_no_objects_def select_length Let_def split: if_splits)

lemma one_result_per_survivor:
  assumes r: "remove_low_and_no_objects float32 ms0 ss0 ls0 omt nl = Inr (ms, ss, ls)"
    and p: "process_image classes omt oat height width nl b (ms0, ss0, ls0) results0
           = Inr (results1, objects)"
  shows "results1 = results0 @ replicate (length ls) b"
proof (cases "ms = []")
  case True
  then have "ls = []" using remove_low_lengths [OF r] by simp
  with True r p show ?thesis by (simp add: process_image_def)
next
  case False
  with r p obtain st where
    l: "merge_loop classes oat (scale_masks ms ss) (argmax0 (scale_masks ms ss)) ls b [0..<length ls]
          \<lparr>current_segment_id = 0, segmentation = replicate height (replicate width 0),
           segments = [], stuff_memory_list = Map.empty, results = results0\<rparr> = Inr st"
    and res: "results1 = results st"
    by (auto simp: process_image_def Let_def split: sum.splits)
  from merge_loop_appends_results [OF l] res show ?thesis by simp
qed

text \<open>
  Single-precision rounding at the two thresholds: a query whose assigned area is 4 of
  its 5 original pixels has the ratio \<open>float32 (4 / 5)\<close>, which is above the threshold
  0.8, and is emitted.
\<close>

lemma float32_examples:
  "float32 1 = 1 \<and> float32 (1 / 2) = 1 / 2 \<and> float32 (9 / 10) = 7549747 / 8388608
   \<and> 8 / 10 < float32 (4 / 5)"
  by code_simp

lemma area_ratio_is_single_precision:
  "post_process_panoptic_segmentation sky_cat 1 5 2
       [([[[1, 1, 1, 1, 1]], [[0, 0, 0, 0, 1]]], [9 / 10, 95 / 100], [0, 1])] (8 / 10) (8 / 10)
     = Inr (replicate 2
             ([[1, 1, 1, 1, 2]],
              [\<lparr>segment_id = 1, category_id = 0, segment_is_thing = False, segment_label = ''sky''\<rparr>,
               \<lparr>segment_id = 2, category_id = 1, segment_is_thing = True, segment_label = ''cat''\<rparr>]))"
  by code_simp

text \<open>
  Claim C1 does not hold of the code. Line 523 appends to \<open>results\<close> inside the loop over
  the surviving queries: an image with no surviving query (one query of score 0.5 under
  the threshold 0.8) contributes no result at all, and the spec's two-query example
  contributes two (both the same pair of objects).
\<close>

theorem results_appended_per_surviving_query:
  "post_process_panoptic_segmentation sky_cat 1 1 2 [([[[1]]], [1 / 2], [0])] (8 / 10) (8 / 10) = Inr []
   \<and> post_process_panoptic_segmentation sky_cat 3 3 2
         [([[[1, 1, 1], [1, 1, 1], [0, 0, 0]], [[0, 0, 0], [0, 0, 0], [1, 1, 1]]],
           [9 / 10, 85 / 100], [0, 1])] (8 / 10) (8 / 10)
       = Inr (replicate 2
               ([[1, 1, 1], [1, 1, 1], [2, 2, 2]],
                [\<lparr>segment_id = 1, category_id = 0, segment_is_thing = False, segment_label = ''sky''\<rparr>,
                 \<lparr>segment_id = 2, category_id = 1, segment_is_thing = True, segment_label = ''cat''\<rparr>]))"
  by code_simp

text \<open>
  Claim C2 does not hold of the code. Two accepted queries of the stuff class ``sky'' on
  disjoint pixels: the map holds both pixels under the id 1, but line 512 appends a
  record for the second query as well, so the segment list has two records for the class.
\<close>

theorem stuff_merge_appends_second_record:
  "post_process_panoptic_segmentation sky_cat 1 2 2
       [([[[1, 0]], [[0, 1]]], [9 / 10, 9 / 10], [0, 0])] (8 / 10) (8 / 10)
     = Inr (replicate 2
             ([[1, 1]],
              [\<lparr>segment_id = 1, category_id = 0, segment_is_thing = False, segment_label = ''sky''\<rparr>,
               \<lparr>segment_id = 1, category_id = 0, segment_is_thing = False, segment_label = ''sky''\<rparr>]))"
  by code_simp

text \<open>
  Claim C3 does not hold of the code. Four accepted queries, sky, cat, sky, cat, one pixel
  each: the merge at line 507 sets the counter back to 1, the next new segment gets the
  id 2 again, and two different cats share the id 2 in the list and in the map.
\<close>

theorem segment_ids_collide:
  "post_process_panoptic_segmentation sky_cat 1 4 2
       [([[[1, 0, 0, 0]], [[0, 1, 0, 0]], [[0, 0, 1, 0]], [[0, 0, 0, 1]]],
         [9 / 10, 9 / 10, 9 / 10, 9 / 10], [0, 1, 0, 1])] (8 / 10) (8 / 10)
     = Inr (replicate 4
             ([[1, 2, 1, 2]],
              [\<lparr>segment_id = 1, category_id = 0, segment_is_thing = False, segment_label = ''sky''\<rparr>,
               \<lparr>segment_id = 2, category_id = 1, segment_is_thing = True, segment_label = ''cat''\<rparr>,
               \<lparr>segment_id = 1, category_id = 0, segment_is_thing = False, segment_label = ''sky''\<rparr>,
               \<lparr>segment_id = 2, category_id = 1, segment_is_thing = True, segment_label = ''cat''\<rparr>]))"
  by code_simp

text \<open>
  Claim C4 does not hold of the code. Query 0 has the unscaled probabilities 1 and 0.5 and
  the score 0.9: two pixels are at least 0.5 before scaling, one after. Line 495 reads the
  tensor scaled at line 478, so the original area is 1, the ratio 1 / 1 passes the
  threshold 0.8 and the query is emitted; with the unscaled area 2 the ratio would be 0.5.
\<close>

theorem original_area_of_scaled_mask:
  "thresholded_area ([[1, 1 / 2]] :: real plane) = 2
   \<and> thresholded_area (scale_masks [[[1, 1 / 2]], [[0, 1]]] [9 / 10, 9 / 10] ! 0) = 1
   \<and> post_process_panoptic_segmentation sky_cat 1 2 2
         [([[[1, 1 / 2]], [[0, 1]]], [9 / 10, 9 / 10], [0, 1])] (8 / 10) (8 / 10)
       = Inr (replicate 2
               ([[1, 2]],
                [\<lparr>segment_id = 1, category_id = 0, segment_is_thing = False, segment_label = ''sky''\<rparr>,
                 \<lparr>segment_id = 2, category_id = 1, segment_is_thing = True, segment_label = ''cat''\<rparr>]))"
  by code_simp

section \<open>Batch packer: what the code returns\<close>

text \<open>
  With padding, the pixel mask of an item is 1 on the whole canvas, and the padded
  instance masks are all false, whatever the item and its masks are.
\<close>

lemma fill_true_whole_canvas:
  "fill_true height width (replicate height (replicate width 0)) = replicate height (replicate width 1)"
  by (auto simp: fill_true_def intro!: nth_equalityI simp: nth_enumerate_eq)

lemma shape_full3:
  "0 < c \<Longrightarrow> 0 < h \<Longrightarrow> shape (full3 c h w v) = [c, h, w]"
  by (cases c; cases h) (simp_all add: shape_def full3_def)

lemma overlay_length: "length (overlay f xs ys) = length xs"
  by (induction f xs ys rule: overlay.induct) simp_all

lemma shape_paste3:
  assumes "0 < c" "0 < h" "img \<noteq> []" "hd img \<noteq> []"
  shows "shape (paste3 (full3 c h w v) img) = [c, h, w]"
  using assms
  by (cases c; cases h; cases img; cases "hd img")
     (simp_all add: shape_def full3_def paste3_def overlay_length)

lemma padded_item_mask_is_whole_canvas:
  assumes "0 < c" "0 < height" "img \<noteq> []" "hd img \<noteq> []"
    and "encode_item True c height width None idx img acc = Inr acc'"
  shows "pixel_mask acc' = pixel_mask acc @ [replicate height (replicate width 1)]"
  using assms(5) shape_paste3 [OF assms(1-4), of width 0]
  by (auto simp: encode_item_def encode_target_def truthy_def Let_def fill_true_whole_canvas)

lemma overlay_same: "(\<And>x. x \<in> set xs \<Longrightarrow> f x x = x) \<Longrightarrow> overlay f xs xs = xs"
  by (induction xs) simp_all

lemma paste3_same: "paste3 a a = a"
  unfolding paste3_def by (intro overlay_same) simp

lemma padded_masks_are_zero:
  assumes "encode_target True height width (Some anns) idx acc = Inr acc'" and "anns \<noteq> []"
  shows "\<exists>n. mask_labels acc' = mask_labels acc @ [full3 n height width False]"
  using assms
  by (auto simp: encode_target_def truthy_def paste3_same Let_def
      split: list.splits option.splits if_splits)

text \<open>
  Claim C5 does not hold of the code. A 1 x 1 image packed with a 2 x 2 image: the canvas
  is 2 x 2 and the padding cells are zero, but line 355 reads the shape of the padded
  image, so the pixel mask of the small image is 1 on the whole canvas.
\<close>

theorem pixel_mask_covers_canvas:
  "encode_inputs plain_batch_feature True [[[[5]]], [[[1, 2], [3, 4]]]] None True None
     = Inr (\<lparr>pixel_values = [[[[5, 0], [0, 0]]], [[[1, 2], [3, 4]]]],
              pixel_mask = [[[1, 1], [1, 1]], [[1, 1], [1, 1]]],
              mask_labels = [], class_labels = []\<rparr>, None)"
  by code_simp

text \<open>
  Claim C6 does not hold of the code. Line 348 copies the zero array into itself instead
  of the masks: an instance mask that is true at its only pixel comes back false.
\<close>

theorem padded_masks_all_false:
  "encode_inputs plain_batch_feature True [[[[5]]]]
       (Some [\<lparr>ann_masks = Some [[[True]]], ann_labels = Some [0], ann_original_size = None\<rparr>])
       True (Some PYTORCH)
     = Inr (\<lparr>pixel_values = [[[[5]]]], pixel_mask = [[[1]]],
              mask_labels = [[[[False]]]], class_labels = [[0]]\<rparr>, Some PYTORCH)"
  by code_simp

section \<open>The call never returns\<close>

lemma bind_should_pad:
  "bind_keywords encode_inputs_parameters 2 [''should_pad'', ''return_tensors'']
     = Inl (TypeError ''should_pad'')"
  by (simp add: bind_keywords_def encode_inputs_parameters_def)

lemma call_encode_inputs_raises:
  "call_encode_inputs batch_feature torch_available images annotations should_pad return_tensors
     = Inl (TypeError ''should_pad'')"
  by (simp add: call_encode_inputs_def bind_should_pad)

lemma validate_default_annotations:
  assumes "valid_images images" and "images \<noteq> Sequence []"
  shows "\<exists>images1. validate images None = Inr (images1, None)"
  using assms
  by (auto simp: validate_def is_batched_def check_annotations_def valid_images_def
      split: images_arg.splits list.splits)

text \<open>
  Claim C7, as stated, fails: a call with a valid image and an annotation dict without
  the key \<^verbatim>\<open>"masks"\<close> raises the \<open>ValueError\<close> of line 242 and never reaches the
  invocation of \<open>encode_inputs\<close>.
\<close>

theorem call_raises_before_encode_inputs:
  "valid_images (Single (Img NDARRAY [[[1]]]))
   \<and> feature_extractor_call default_feature_extractor passthrough_externals plain_batch_feature True
         (Single (Img NDARRAY [[[1]]]))
         (Some (AnnDict \<lparr>ann_masks = None, ann_labels = Some [0], ann_original_size = None\<rparr>))
         True None
       = Inl (ValueError ''Annotations must of type Dict or List[Dict]'')"
  by code_simp

text \<open>
  Claim C7, amended. No call of \<open>__call__\<close> returns a \<open>BatchFeature\<close>. When the checks of
  the arguments pass and neither resizing nor normalisation raises, the call reaches the
  invocation of \<open>encode_inputs\<close>, which raises \<open>TypeError\<close> for the keyword
  \<open>should_pad\<close>. For a valid \<open>images\<close> argument (an image, or a non-empty list whose first
  entry is one) and no annotations the checks do pass.
\<close>

theorem feature_extractor_call_never_returns:
  "(\<forall>encoded_inputs.
       feature_extractor_call fe ext batch_feature torch_available images annotations
         pad_and_return_pixel_mask return_tensors \<noteq> Inr encoded_inputs)
   \<and> (validate images annotations = Inr (images1, annotations1)
        \<and> transform fe ext images1 annotations1 = Inr (images2, annotations2)
      \<longrightarrow> feature_extractor_call fe ext batch_feature torch_available images annotations
            pad_and_return_pixel_mask return_tensors = Inl (TypeError ''should_pad''))
   \<and> (valid_images images \<and> images \<noteq> Sequence []
      \<longrightarrow> (\<exists>images0. validate images None = Inr (images0, None)))"
proof (intro conjI allI impI)
  fix encoded_inputs
  show "feature_extractor_call fe ext batch_feature torch_available images annotations
          pad_and_return_pixel_mask return_tensors \<noteq> Inr encoded_inputs"
    by (simp add: feature_extractor_call_def call_encode_inputs_raises split: sum.splits prod.splits)
next
  assume "validate images annotations = Inr (images1, annotations1)
        \<and> transform fe ext images1 annotations1 = Inr (images2, annotations2)"
  then show "feature_extractor_call fe ext batch_feature torch_available images annotations
            pad_and_return_pixel_mask return_tensors = Inl (TypeError ''should_pad'')"
    by (simp add: feature_extractor_call_def call_encode_inputs_raises)
next
  assume "valid_images images \<and> images \<noteq> Sequence []"
  then show "\<exists>images0. validate images None = Inr (images0, None)"
    using validate_default_annotations by blast
qed

theorem feature_extractor_call_never_returns_witness:
  "valid_images (Single (Img NDARRAY [[[1]]]))
   \<and> validate (Single (Img NDARRAY [[[1]]])) None = Inr ([Img NDARRAY [[[1]]]], None)
   \<and> transform default_feature_extractor passthrough_externals [Img NDARRAY [[[1]]]] None
        = Inr ([Img NDARRAY [[[1]]]], None)
   \<and> feature_extractor_call default_feature_extractor passthrough_externals plain_batch_feature True
        (Single (Img NDARRAY [[[1]]])) None True None = Inl (TypeError ''should_pad'')"
proof -
  have v: "validate (Single (Img NDARRAY [[[1]]])) None = Inr ([Img NDARRAY [[[1]]]], None)"
    by code_simp
  have t: "transform default_feature_extractor passthrough_externals [Img NDARRAY [[[1]]]] None
        = Inr ([Img NDARRAY [[[1]]]], None)"
    by code_simp
  have vi: "valid_images (Single (Img NDARRAY [[[1]]]))"
    by code_simp
  show ?thesis
    using feature_extractor_call_never_returns
      [of default_feature_extractor passthrough_externals plain_batch_feature True
          "Single (Img NDARRAY [[[1]]])" None True None
          "[Img NDARRAY [[[1]]]]" None "[Img NDARRAY [[[1]]]]" None] v t vi
    by simp
qed

end
